theory Spec2Isabelle
  imports Complex_Main "HOL-Library.Multiset"
begin

section \<open>Python primitives\<close>

text \<open>
  Numbers are modelled exactly: a Python or numpy float is a \<^typ>\<open>real\<close> (no binary
  rounding, no overflow, no infinity), a Python integer is an \<^typ>\<open>int\<close>. A missing
  table cell (pandas NaN / None) is \<open>None\<close> of an option type. A pandas table is the list
  of its rows, as \<^verbatim>\<open>read_csv\<close> reads them, and a column operation is the same operation on
  every row; where the type that pandas gives a column decides whether an operation on the
  column raises, the model says so at that operation.
\<close>

datatype py_error = ZeroDivisionError | AttributeError | ValueError

text \<open>\<^verbatim>\<open>a / b\<close>: true division raises on a zero divisor.\<close>

definition py_truediv :: "real \<Rightarrow> real \<Rightarrow> py_error + real" where
  "py_truediv a b = (if b = 0 then Inl ZeroDivisionError else Inr (a / b))"

text \<open>Sequencing of computations that may raise: the first error is the result.\<close>

definition bind_result :: "py_error + 'a \<Rightarrow> ('a \<Rightarrow> py_error + 'b) \<Rightarrow> py_error + 'b" where
  "bind_result r f = (case r of Inl e \<Rightarrow> Inl e | Inr v \<Rightarrow> f v)"

fun traverse :: "('a \<Rightarrow> py_error + 'b) \<Rightarrow> 'a list \<Rightarrow> py_error + 'b list" where
  "traverse f [] = Inr []"
| "traverse f (x # xs) =
     bind_result (f x) (\<lambda>y. bind_result (traverse f xs) (\<lambda>ys. Inr (y # ys)))"

text \<open>\<^verbatim>\<open>int(x)\<close> on a float: truncation towards zero.\<close>

definition py_int_of_float :: "real \<Rightarrow> int" where
  "py_int_of_float x = (if 0 \<le> x then \<lfloor>x\<rfloor> else \<lceil>x\<rceil>)"

text \<open>\<^verbatim>\<open>round(x, n)\<close>: rounding to \<open>n\<close> decimals, a tie going to the even neighbour.\<close>

definition round_half_even :: "real \<Rightarrow> int" where
  "round_half_even x =
     (let f = \<lfloor>x\<rfloor>; d = x - of_int f
      in if d < 1 / 2 then f
         else if 1 / 2 < d then f + 1
         else if even f then f else f + 1)"

definition py_round :: "real \<Rightarrow> nat \<Rightarrow> real" where
  "py_round x n = of_int (round_half_even (x * 10 ^ n)) / 10 ^ n"

text \<open>\<^verbatim>\<open>pat in s\<close> / \<^verbatim>\<open>Series.str.contains(pat)\<close> for a pattern without regex operators.\<close>

fun starts_with :: "string \<Rightarrow> string \<Rightarrow> bool" where
  "starts_with [] s = True"
| "starts_with (p # ps) [] = False"
| "starts_with (p # ps) (c # cs) = (p = c \<and> starts_with ps cs)"

fun str_contains :: "string \<Rightarrow> string \<Rightarrow> bool" where
  "str_contains pat [] = starts_with pat []"
| "str_contains pat (c # cs) = (starts_with pat (c # cs) \<or> str_contains pat cs)"

text \<open>\<^verbatim>\<open>str(n)\<close> for a non-negative integer.\<close>

definition digit_char :: "nat \<Rightarrow> char" where
  "digit_char d = char_of (48 + d)"

fun str_of_nat :: "nat \<Rightarrow> string" where
  "str_of_nat n =
     (if n < 10 then [digit_char n] else str_of_nat (n div 10) @ [digit_char (n mod 10)])"

definition str_of_int :: "int \<Rightarrow> string" where
  "str_of_int i = (if i < 0 then CHR ''-'' # str_of_nat (nat (- i)) else str_of_nat (nat i))"


section \<open>process\_shots.py\<close>

subsection \<open>assign\_zone\<close>

definition assign_zone ::
  "real \<Rightarrow> real \<Rightarrow> real \<Rightarrow> real \<Rightarrow> int \<Rightarrow> int \<Rightarrow> py_error + (int \<times> int)" where
  "assign_zone x y court_width court_length grid_rows grid_cols =
     bind_result (py_truediv x court_width) (\<lambda>xq.
     let x_norm = max 0 (min 1 xq) in
     bind_result (py_truediv y court_length) (\<lambda>yq.
     let y_norm = max 0 (min 1 yq);
         col = py_int_of_float (x_norm * of_int grid_cols);
         row = py_int_of_float (y_norm * of_int grid_rows);
         col = min col (grid_cols - 1);
         row = min row (grid_rows - 1)
     in Inr (row, col)))"

subsection \<open>calculate\_zone\_stats\<close>

text \<open>A row of the shot table: the columns the function reads.\<close>

record shot =
  X :: real
  Y :: real
  ShotType :: "string option"
  Result :: "string option"

text \<open>The working copy of the table, with the two columns the function adds.\<close>

record scored_shot = shot +
  Zone :: "int \<times> int"
  Points :: int

text \<open>One row of the returned table.\<close>

record zone_stat =
  Row :: int
  Col :: int
  ZoneLabel :: string
  TotalShots :: int
  MadeShots :: int
  MissedShots :: int
  TotalPoints :: int
  PointsPerShot :: real
  PointsPerPossession :: real
  FieldGoalPercentage :: real

text \<open>
  \<^verbatim>\<open>df['Zone'] = df.apply(lambda row: assign_zone(...), axis=1)\<close> followed by
  \<^verbatim>\<open>df['Points'] = 0\<close>.
\<close>

definition add_zone ::
  "real \<Rightarrow> real \<Rightarrow> int \<Rightarrow> int \<Rightarrow> shot \<Rightarrow> py_error + scored_shot" where
  "add_zone court_width court_length grid_rows grid_cols s =
     bind_result (assign_zone (X s) (Y s) court_width court_length grid_rows grid_cols)
       (\<lambda>z. Inr \<lparr>X = X s, Y = Y s, ShotType = ShotType s, Result = Result s,
                  Zone = z, Points = 0\<rparr>)"

text \<open>
  \<^verbatim>\<open>df['ShotType'].str.contains('3PT', na=False)\<close>. The accessor \<^verbatim>\<open>.str\<close> exists on a
  column of strings. A column whose cells are all blank is read as a column of floats, and
  there the accessor raises \<^verbatim>\<open>AttributeError\<close>; the column of a table without rows is a
  column of objects, where the accessor exists. Where the accessor exists, the value for a
  row is whether its shot type contains \<open>3PT\<close>, and \<open>False\<close> for a blank cell.
\<close>

definition cell_contains_3PT :: "'a shot_scheme \<Rightarrow> bool" where
  "cell_contains_3PT s =
     (case ShotType s of None \<Rightarrow> False | Some t \<Rightarrow> str_contains ''3PT'' t)"

definition has_str_accessor :: "'a shot_scheme list \<Rightarrow> bool" where
  "has_str_accessor df = (df = [] \<or> list_ex (\<lambda>s. ShotType s \<noteq> None) df)"

definition contains_3PT :: "scored_shot list \<Rightarrow> py_error + (scored_shot \<Rightarrow> bool)" where
  "contains_3PT df = (if has_str_accessor df then Inr cell_contains_3PT else Inl AttributeError)"

text \<open>\<^verbatim>\<open>df['Result'] == 'Made'\<close>.\<close>

definition is_made :: "'a shot_scheme \<Rightarrow> bool" where
  "is_made s = (Result s = Some ''Made'')"

text \<open>\<^verbatim>\<open>df.loc[cond, 'Points'] = v\<close>.\<close>

definition loc_set_Points :: "(scored_shot \<Rightarrow> bool) \<Rightarrow> int \<Rightarrow> scored_shot list \<Rightarrow> scored_shot list" where
  "loc_set_Points cond v df = map (\<lambda>s. if cond s then s\<lparr>Points := v\<rparr> else s) df"

text \<open>The three masked assignments to the column \<open>Points\<close>.\<close>

definition score_points :: "scored_shot list \<Rightarrow> py_error + scored_shot list" where
  "score_points df =
     bind_result (contains_3PT df) (\<lambda>is_3pt.
     let df = loc_set_Points (\<lambda>s. is_3pt s \<and> is_made s) 3 df in
     bind_result (contains_3PT df) (\<lambda>is_3pt.
     let df = loc_set_Points (\<lambda>s. \<not> is_3pt s \<and> is_made s) 2 df;
         df = loc_set_Points (\<lambda>s. \<not> is_made s) 0 df
     in Inr df))"

definition zone_label :: "int \<Rightarrow> int \<Rightarrow> string" where
  "zone_label row_idx col_idx = ''('' @ str_of_int row_idx @ '','' @ str_of_int col_idx @ '')''"

text \<open>
  \<^verbatim>\<open>df[df['Zone'] == (row_idx, col_idx)]\<close>. On a table without rows \<^verbatim>\<open>apply\<close> has
  returned an empty column of floats for \<open>Zone\<close>, and comparing that column with a pair
  raises \<^verbatim>\<open>ValueError\<close>; on a table with rows the column holds the pairs that
  \<open>assign_zone\<close> returned, and the comparison is made row by row.
\<close>

definition select_zone :: "scored_shot list \<Rightarrow> int \<Rightarrow> int \<Rightarrow> py_error + scored_shot list" where
  "select_zone df row_idx col_idx =
     (if df = [] then Inl ValueError
      else Inr (filter (\<lambda>s. Zone s = (row_idx, col_idx)) df))"

text \<open>The body of the two nested loops over the grid.\<close>

definition zone_entry :: "scored_shot list \<Rightarrow> int \<Rightarrow> int \<Rightarrow> py_error + zone_stat" where
  "zone_entry df row_idx col_idx =
     bind_result (select_zone df row_idx col_idx) (\<lambda>zone_shots.
      if 0 < length zone_shots then
           (let total_shots = int (length zone_shots);
                made_shots = int (length (filter is_made zone_shots));
                total_points = sum_list (map Points zone_shots)
            in bind_result
                 (if 0 < total_shots then py_truediv (of_int total_points) (of_int total_shots)
                  else Inr 0) (\<lambda>pps.
               bind_result
                 (if 0 < total_shots then py_truediv (of_int total_points) (of_int total_shots)
                  else Inr 0) (\<lambda>ppp.
               bind_result
                 (if 0 < total_shots
                  then bind_result (py_truediv (of_int made_shots) (of_int total_shots))
                         (\<lambda>q. Inr (py_round (q * 100) 1))
                  else Inr 0) (\<lambda>fgp.
               Inr \<lparr>Row = row_idx, Col = col_idx, ZoneLabel = zone_label row_idx col_idx,
                    TotalShots = total_shots, MadeShots = made_shots,
                    MissedShots = total_shots - made_shots, TotalPoints = total_points,
                    PointsPerShot = py_round pps 2, PointsPerPossession = py_round ppp 2,
                    FieldGoalPercentage = fgp\<rparr>))))
         else
           Inr \<lparr>Row = row_idx, Col = col_idx, ZoneLabel = zone_label row_idx col_idx,
                TotalShots = 0, MadeShots = 0, MissedShots = 0, TotalPoints = 0,
                PointsPerShot = 0, PointsPerPossession = 0, FieldGoalPercentage = 0\<rparr>)"

text \<open>
  \<^verbatim>\<open>range(n)\<close> is \<open>[0..n - 1]\<close>, empty for \<open>n \<le> 0\<close>; with an empty grid the loop body
  does not run and the returned table has no rows.
\<close>

definition calculate_zone_stats ::
  "shot list \<Rightarrow> real \<Rightarrow> real \<Rightarrow> int \<Rightarrow> int \<Rightarrow> py_error + zone_stat list" where
  "calculate_zone_stats df court_width court_length grid_rows grid_cols =
     bind_result (traverse (add_zone court_width court_length grid_rows grid_cols) df) (\<lambda>df.
     bind_result (score_points df) (\<lambda>df.
     traverse (\<lambda>(row_idx, col_idx). zone_entry df row_idx col_idx)
       (List.product [0..grid_rows - 1] [0..grid_cols - 1])))"


text \<open>
  The value the three masked assignments of \<open>score_points\<close> leave in the \<open>Points\<close>
  column of a row, and what \<open>zone_entry\<close> reports for a zone, both in terms of the input
  table; the lemmas below prove that the code computes them.
\<close>

definition shot_value :: "shot \<Rightarrow> int" where
  "shot_value s = (if is_made s then if cell_contains_3PT s then 3 else 2 else 0)"

definition zone_row_of ::
  "shot list \<Rightarrow> real \<Rightarrow> real \<Rightarrow> int \<Rightarrow> int \<Rightarrow> int \<times> int \<Rightarrow> zone_stat \<Rightarrow> bool" where
  "zone_row_of df court_width court_length grid_rows grid_cols p z =
     (let zone_shots = filter (\<lambda>s. assign_zone (X s) (Y s) court_width court_length
                                      grid_rows grid_cols = Inr p) df
      in (Row z, Col z) = p
         \<and> TotalShots z = int (length zone_shots)
         \<and> MadeShots z = int (length (filter is_made zone_shots))
         \<and> MissedShots z = TotalShots z - MadeShots z
         \<and> TotalPoints z = sum_list (map shot_value zone_shots)
         \<and> PointsPerPossession z = PointsPerShot z
         \<and> (zone_shots = [] \<longrightarrow> PointsPerShot z = 0 \<and> FieldGoalPercentage z = 0))"


section \<open>analyze\_game.py\<close>

subsection \<open>Strings: split and int\<close>

text \<open>
  Strings are byte strings in UTF-8. \<^verbatim>\<open>s.split(':')\<close> always returns at least one part.
\<close>

fun split_on :: "char \<Rightarrow> string \<Rightarrow> string list" where
  "split_on sep [] = [[]]"
| "split_on sep (c # cs) =
     (if c = sep then [] # split_on sep cs
      else (case split_on sep cs of [] \<Rightarrow> [[c]] | p # ps \<Rightarrow> (c # p) # ps))"

text \<open>
  \<^verbatim>\<open>int(s)\<close> on a string, for ASCII input: surrounding whitespace is dropped, one sign
  is allowed, then decimal digits, where single underscores may separate digits. \<open>None\<close>
  is the \<^verbatim>\<open>ValueError\<close>. CPython's limit on the number of digits is not modelled.
\<close>

definition is_digit :: "char \<Rightarrow> bool" where
  "is_digit c = (48 \<le> (of_char c :: nat) \<and> (of_char c :: nat) \<le> 57)"

definition digit_val :: "char \<Rightarrow> nat" where
  "digit_val c = of_char c - 48"

definition is_space :: "char \<Rightarrow> bool" where
  "is_space c = ((9 \<le> (of_char c :: nat) \<and> (of_char c :: nat) \<le> 13) \<or> (of_char c :: nat) = 32)"

definition strip :: "string \<Rightarrow> string" where
  "strip s = rev (dropWhile is_space (rev (dropWhile is_space s)))"

fun parse_digits :: "nat \<Rightarrow> string \<Rightarrow> nat option" where
  "parse_digits acc [] = Some acc"
| "parse_digits acc (c # cs) =
     (if is_digit c then parse_digits (10 * acc + digit_val c) cs
      else if c = CHR ''_'' then
        (case cs of [] \<Rightarrow> None
         | d # ds \<Rightarrow> if is_digit d then parse_digits acc cs else None)
      else None)"

definition parse_unsigned :: "string \<Rightarrow> nat option" where
  "parse_unsigned s =
     (case s of [] \<Rightarrow> None | c # cs \<Rightarrow> if is_digit c then parse_digits 0 s else None)"

definition py_int :: "string \<Rightarrow> int option" where
  "py_int s =
     (case strip s of
        [] \<Rightarrow> None
      | c # cs \<Rightarrow>
          if c = CHR ''-'' then map_option (\<lambda>n. - int n) (parse_unsigned cs)
          else if c = CHR ''+'' then map_option int (parse_unsigned cs)
          else map_option int (parse_unsigned (c # cs)))"

text \<open>The value of a string of decimal digits.\<close>

definition decimal_value :: "string \<Rightarrow> nat" where
  "decimal_value ds = foldl (\<lambda>a c. 10 * a + digit_val c) 0 ds"

text \<open>The sentinel of the data sheets, U+2014 EM DASH.\<close>

definition em_dash :: string where
  "em_dash = [char_of (226 :: nat), char_of (128 :: nat), char_of (148 :: nat)]"

subsection \<open>Sorting\<close>

text \<open>
  \<^verbatim>\<open>xs.sort(key=k, reverse=True)\<close>: Python's sort is stable, and with
  \<^verbatim>\<open>reverse=True\<close> elements of equal key still keep their original order.
  \<^const>\<open>sort_key\<close> is a stable insertion sort in ascending order.
\<close>

definition sort_reverse :: "('a \<Rightarrow> 'k::linordered_ab_group_add) \<Rightarrow> 'a list \<Rightarrow> 'a list" where
  "sort_reverse k xs = sort_key (\<lambda>x. - k x) xs"

subsection \<open>Tables\<close>

text \<open>The columns of the team box score that the analyzer reads.\<close>

record team_stats =
  TeamPoints :: real
  FG_Attempts :: real
  Offensive_Rebounds :: real
  Turnovers :: real
  FT_Att :: real
  Effective_Field_Goal_pct :: "real option"
  True_Shooting_pct :: "real option"
  FG2_Made :: real
  FG2_Attempts :: real
  FG3_Made :: real
  FG3_Attempts :: real
  AST_TO_Ratio :: real
  Turnover_pct :: real
  Points_Per_Possession :: real

text \<open>A cell that may hold a number, a string, or nothing.\<close>

datatype cell = Missing | Num real | Text string

text \<open>The columns of the player table that the analyzer reads.\<close>

record player_row =
  Athlete :: string
  Number :: int
  Basic_MP :: "string option"
  Basic_TO :: "real option"
  Advanced_AST_TO :: "real option"
  Advanced_USG :: "real option"
  Basic_TRB :: "real option"
  Basic_ORB :: "real option"
  Basic_DRB :: "real option"
  Advanced_ORB_pct :: "real option"
  Advanced_DRB_pct :: "real option"
  Basic_FGA :: "real option"
  Basic_FGM :: "real option"
  Basic_FG_pct :: cell
  Shooting_eFG_pct :: cell
  Shooting_TS_pct :: cell

record game_analyzer =
  our_team_stats :: team_stats
  opponent_stats :: team_stats
  our_players :: "player_row list"
  our_possessions :: real
  opponent_possessions :: real

subsection \<open>\_calculate\_possessions and the constructor\<close>

definition calculate_possessions :: "team_stats \<Rightarrow> real" where
  "calculate_possessions team_stats =
     (let fga = FG_Attempts team_stats;
          orb = Offensive_Rebounds team_stats;
          to = Turnovers team_stats;
          fta = FT_Att team_stats;
          possessions = fga - orb + to + (0.44 * fta)
      in possessions)"

text \<open>
  The constructor, after the two tables are read and filtered: the rows of the two teams
  and the players of the home side are given.
\<close>

definition GameAnalyzer :: "team_stats \<Rightarrow> team_stats \<Rightarrow> player_row list \<Rightarrow> game_analyzer" where
  "GameAnalyzer our opp players =
     \<lparr>our_team_stats = our, opponent_stats = opp, our_players = players,
      our_possessions = calculate_possessions our,
      opponent_possessions = calculate_possessions opp\<rparr>"

subsection \<open>\_parse\_minutes\<close>

definition parse_minutes :: "string option \<Rightarrow> real" where
  "parse_minutes time_str =
     (case time_str of
        None \<Rightarrow> 0
      | Some s \<Rightarrow>
          if s = em_dash then 0
          else
            (let parts = split_on CHR '':'' s
             in if length parts = 2 then
                  (case py_int (parts ! 0) of
                     None \<Rightarrow> 0
                   | Some minutes \<Rightarrow>
                       (case py_int (parts ! 1) of
                          None \<Rightarrow> 0
                        | Some seconds \<Rightarrow> of_int minutes + of_int seconds / 60))
                else 0))"


subsection \<open>calculate\_efficiency\_metrics\<close>

record team_metrics =
  points :: real
  possessions :: real
  ppp :: real
  pps :: real
  efg :: real
  ts :: real

record our_metrics = team_metrics +
  fgm_2pt :: real
  fga_2pt :: real
  pct_2pt :: real
  pps_2pt :: real
  fgm_3pt :: real
  fga_3pt :: real
  pct_3pt :: real
  pps_3pt :: real

record efficiency_metrics =
  our_team :: our_metrics
  opponent :: team_metrics

definition calculate_efficiency_metrics :: "game_analyzer \<Rightarrow> py_error + efficiency_metrics" where
  "calculate_efficiency_metrics self =
     (let our = our_team_stats self;
          opp = opponent_stats self
      in
      bind_result (if 0 < our_possessions self
                   then py_truediv (TeamPoints our) (our_possessions self) else Inr 0) (\<lambda>our_ppp.
      bind_result (if 0 < opponent_possessions self
                   then py_truediv (TeamPoints opp) (opponent_possessions self) else Inr 0) (\<lambda>opp_ppp.
      bind_result (if 0 < FG_Attempts our
                   then py_truediv (TeamPoints our) (FG_Attempts our) else Inr 0) (\<lambda>our_pps.
      bind_result (if 0 < FG_Attempts opp
                   then py_truediv (TeamPoints opp) (FG_Attempts opp) else Inr 0) (\<lambda>opp_pps.
      let our_efg = (case Effective_Field_Goal_pct our of Some v \<Rightarrow> v / 100 | None \<Rightarrow> 0);
          opp_efg = (case Effective_Field_Goal_pct opp of Some v \<Rightarrow> v / 100 | None \<Rightarrow> 0);
          our_ts = (case True_Shooting_pct our of Some v \<Rightarrow> v / 100 | None \<Rightarrow> 0);
          opp_ts = (case True_Shooting_pct opp of Some v \<Rightarrow> v / 100 | None \<Rightarrow> 0);
          our_2pt_fgm = FG2_Made our;
          our_2pt_fga = FG2_Attempts our;
          our_3pt_fgm = FG3_Made our;
          our_3pt_fga = FG3_Attempts our
      in
      bind_result (if 0 < our_2pt_fga
                   then bind_result (py_truediv our_2pt_fgm our_2pt_fga) (\<lambda>q. Inr (q * 100))
                   else Inr 0) (\<lambda>our_2pt_pct.
      bind_result (if 0 < our_3pt_fga
                   then bind_result (py_truediv our_3pt_fgm our_3pt_fga) (\<lambda>q. Inr (q * 100))
                   else Inr 0) (\<lambda>our_3pt_pct.
      let our_2pt_pps = our_2pt_pct / 100 * 2;
          our_3pt_pps = our_3pt_pct / 100 * 3
      in
      Inr \<lparr>our_team =
             \<lparr>points = TeamPoints our,
              possessions = py_round (our_possessions self) 2,
              ppp = py_round our_ppp 3,
              pps = py_round our_pps 3,
              efg = py_round (our_efg * 100) 2,
              ts = py_round (our_ts * 100) 2,
              fgm_2pt = our_2pt_fgm,
              fga_2pt = our_2pt_fga,
              pct_2pt = py_round our_2pt_pct 2,
              pps_2pt = py_round our_2pt_pps 3,
              fgm_3pt = our_3pt_fgm,
              fga_3pt = our_3pt_fga,
              pct_3pt = py_round our_3pt_pct 2,
              pps_3pt = py_round our_3pt_pps 3\<rparr>,
           opponent =
             \<lparr>points = TeamPoints opp,
              possessions = py_round (opponent_possessions self) 2,
              ppp = py_round opp_ppp 3,
              pps = py_round opp_pps 3,
              efg = py_round (opp_efg * 100) 2,
              ts = py_round (opp_ts * 100) 2\<rparr>\<rparr>)))))))"

subsection \<open>analyze\_turnovers\<close>

record player_entry =
  player :: string
  number :: int

record turnover_entry = player_entry +
  turnovers :: real
  to_per_36 :: real
  ast_to_ratio :: real
  usage :: real
  minutes :: real

record turnover_report =
  our_turnovers :: int
  opponent_turnovers :: int
  our_to_rate :: real
  opp_to_rate :: real
  our_ast_to_ratio :: real
  our_turnover_pct :: real
  potential_points_lost :: real
  top_turnover_players :: "turnover_entry list"
  recommendations :: "string list"

text \<open>
  One pass of the loop over the players: what it appends to \<^verbatim>\<open>player_turnovers\<close>,
  nothing for a player whose turnover cell is missing or not positive.
\<close>

definition turnover_rows :: "player_row \<Rightarrow> py_error + turnover_entry list" where
  "turnover_rows p =
     (case Basic_TO p of
        None \<Rightarrow> Inr []
      | Some tov \<Rightarrow>
          if 0 < tov then
            (let minutes = parse_minutes (Basic_MP p) in
             bind_result (if 0 < minutes
                          then bind_result (py_truediv tov minutes) (\<lambda>q. Inr (q * 36))
                          else Inr 0) (\<lambda>to_per_36.
             let ast_to = (case Advanced_AST_TO p of Some v \<Rightarrow> v | None \<Rightarrow> 0);
                 usage = (case Advanced_USG p of Some v \<Rightarrow> v | None \<Rightarrow> 0)
             in Inr [\<lparr>player = Athlete p, number = Number p, turnovers = tov,
                      to_per_36 = py_round to_per_36 2, ast_to_ratio = py_round ast_to 2,
                      usage = py_round usage 2, minutes = minutes\<rparr>]))
          else Inr [])"

text \<open>The list \<^verbatim>\<open>player_turnovers\<close> after the loop and the sort.\<close>

definition player_turnovers :: "game_analyzer \<Rightarrow> py_error + turnover_entry list" where
  "player_turnovers self =
     bind_result (traverse turnover_rows (our_players self)) (\<lambda>rows.
     Inr (sort_reverse turnovers (concat rows)))"

definition analyze_turnovers :: "game_analyzer \<Rightarrow> py_error + turnover_report" where
  "analyze_turnovers self =
     (let our_to = Turnovers (our_team_stats self);
          opp_to = Turnovers (opponent_stats self);
          our_ast_to_ratio = AST_TO_Ratio (our_team_stats self);
          our_turnover_pct = Turnover_pct (our_team_stats self)
      in
      bind_result (if 0 < our_possessions self
                   then bind_result (py_truediv our_to (our_possessions self)) (\<lambda>q. Inr (q * 100))
                   else Inr 0) (\<lambda>our_to_rate.
      bind_result (if 0 < opponent_possessions self
                   then bind_result (py_truediv opp_to (opponent_possessions self)) (\<lambda>q. Inr (q * 100))
                   else Inr 0) (\<lambda>opp_to_rate.
      bind_result (player_turnovers self) (\<lambda>player_turnovers.
      let our_ppp = Points_Per_Possession (our_team_stats self);
          potential_points_lost = our_to * our_ppp;
          recommendations = [];
          recommendations = recommendations @
            (if 20 < our_to_rate
             then [''CRITICAL: Turnover rate is very high (>20%). Focus on ball security.'']
             else if 15 < our_to_rate
             then [''WARNING: Turnover rate is elevated (>15%). Improve decision-making.'']
             else []);
          recommendations = recommendations @
            (if our_ast_to_ratio < 1
             then [''Low assist-to-turnover ratio. Focus on better passing and court vision.'']
             else []);
          recommendations = recommendations @
            (case player_turnovers of
               [] \<Rightarrow> []
             | top_to_player # rest \<Rightarrow>
                 if 5 < to_per_36 top_to_player
                 then [''High turnover rate from '' @ player top_to_player @ '' (#''
                       @ str_of_int (number top_to_player)
                       @ ''). Provide extra support on ball handling.'']
                 else [])
      in
      Inr \<lparr>our_turnovers = py_int_of_float our_to,
           opponent_turnovers = py_int_of_float opp_to,
           our_to_rate = py_round our_to_rate 2,
           opp_to_rate = py_round opp_to_rate 2,
           our_ast_to_ratio = py_round our_ast_to_ratio 2,
           our_turnover_pct = py_round our_turnover_pct 2,
           potential_points_lost = py_round potential_points_lost 2,
           top_turnover_players = take 5 player_turnovers,
           recommendations = recommendations\<rparr>))))"

subsection \<open>analyze\_rebounding: the player ranking\<close>

record rebound_entry = player_entry +
  total_reb :: real
  orb :: "real option"
  drb :: "real option"
  reb_per_36 :: real
  orb_pct :: real
  drb_pct :: real
  reb_minutes :: real

definition rebound_rows :: "player_row \<Rightarrow> py_error + rebound_entry list" where
  "rebound_rows p =
     (case Basic_TRB p of
        None \<Rightarrow> Inr []
      | Some trb \<Rightarrow>
          if 0 < trb then
            (let minutes = parse_minutes (Basic_MP p) in
             bind_result (if 0 < minutes
                          then bind_result (py_truediv trb minutes) (\<lambda>q. Inr (q * 36))
                          else Inr 0) (\<lambda>reb_per_36.
             let orb_pct = (case Advanced_ORB_pct p of Some v \<Rightarrow> v | None \<Rightarrow> 0);
                 drb_pct = (case Advanced_DRB_pct p of Some v \<Rightarrow> v | None \<Rightarrow> 0)
             in Inr [\<lparr>player = Athlete p, number = Number p, total_reb = trb,
                      orb = Basic_ORB p, drb = Basic_DRB p,
                      reb_per_36 = py_round reb_per_36 2, orb_pct = py_round orb_pct 2,
                      drb_pct = py_round drb_pct 2, reb_minutes = minutes\<rparr>]))
          else Inr [])"

definition player_rebounds :: "game_analyzer \<Rightarrow> py_error + rebound_entry list" where
  "player_rebounds self =
     bind_result (traverse rebound_rows (our_players self)) (\<lambda>rows.
     Inr (sort_reverse total_reb (concat rows)))"

text \<open>
  Of the returned mapping only the entry \<^verbatim>\<open>'top_rebounders'\<close> is modelled; the other
  entries are computed from the two team rows alone.
\<close>

record rebounding_report =
  top_rebounders :: "rebound_entry list"

definition analyze_rebounding :: "game_analyzer \<Rightarrow> py_error + rebounding_report" where
  "analyze_rebounding self =
     bind_result (player_rebounds self) (\<lambda>player_rebounds.
     Inr \<lparr>top_rebounders = take 5 player_rebounds\<rparr>)"

subsection \<open>optimize\_shot\_selection: the player ranking\<close>

record shot_entry = player_entry +
  fga :: int
  fgm :: int
  fg_pct :: real
  shot_efg :: real
  shot_ts :: real
  shot_usage :: real

text \<open>
  The local helper \<^verbatim>\<open>safe_float\<close>. Python's \<^verbatim>\<open>float\<close> on a string is the parameter
  \<open>py_float\<close>, \<open>None\<close> where it raises \<^verbatim>\<open>ValueError\<close>.
\<close>

definition safe_float :: "(string \<Rightarrow> real option) \<Rightarrow> cell \<Rightarrow> real \<Rightarrow> real" where
  "safe_float py_float val dflt =
     (case val of
        Missing \<Rightarrow> dflt
      | Num v \<Rightarrow> v
      | Text s \<Rightarrow>
          if s = em_dash \<or> s = [] then dflt
          else (case py_float s of None \<Rightarrow> dflt | Some v \<Rightarrow> v))"

definition shot_rows :: "(string \<Rightarrow> real option) \<Rightarrow> player_row \<Rightarrow> shot_entry list" where
  "shot_rows py_float p =
     (case Basic_FGA p of
        None \<Rightarrow> []
      | Some att \<Rightarrow>
          if 0 < att then
            (let fg_pct = safe_float py_float (Basic_FG_pct p) 0;
                 efg = safe_float py_float (Shooting_eFG_pct p) 0;
                 ts = safe_float py_float (Shooting_TS_pct p) 0;
                 usage = safe_float py_float
                           (case Advanced_USG p of None \<Rightarrow> Missing | Some v \<Rightarrow> Num v) 0
             in [\<lparr>player = Athlete p, number = Number p,
                  fga = py_int_of_float att,
                  fgm = (case Basic_FGM p of Some m \<Rightarrow> py_int_of_float m | None \<Rightarrow> 0),
                  fg_pct = (if 0 < fg_pct then py_round (fg_pct * 100) 2 else 0),
                  shot_efg = py_round efg 2, shot_ts = py_round ts 2,
                  shot_usage = py_round usage 2\<rparr>])
          else [])"

definition player_shots :: "(string \<Rightarrow> real option) \<Rightarrow> game_analyzer \<Rightarrow> shot_entry list" where
  "player_shots py_float self =
     sort_reverse fga (concat (map (shot_rows py_float) (our_players self)))"

text \<open>
  Of the returned mapping only the entry \<^verbatim>\<open>'top_shooters'\<close> is modelled; the other
  entries are computed from the row of the own team alone.
\<close>

record shot_selection_report =
  top_shooters :: "shot_entry list"

definition optimize_shot_selection ::
  "(string \<Rightarrow> real option) \<Rightarrow> game_analyzer \<Rightarrow> shot_selection_report" where
  "optimize_shot_selection py_float self =
     \<lparr>top_shooters = take 5 (player_shots py_float self)\<rparr>"

subsection \<open>What the loops append\<close>

text \<open>
  The condition under which a loop over the players appends an entry, and the entry it
  appends, as plain functions of the player row; the lemmas below prove that
  \<open>turnover_rows\<close>, \<open>rebound_rows\<close> and \<open>shot_rows\<close> compute them and never raise.
\<close>

definition has_turnovers :: "player_row \<Rightarrow> bool" where
  "has_turnovers p = (case Basic_TO p of None \<Rightarrow> False | Some v \<Rightarrow> 0 < v)"

definition turnover_entry_of :: "player_row \<Rightarrow> turnover_entry" where
  "turnover_entry_of p =
     (let minutes = parse_minutes (Basic_MP p);
          tov = (case Basic_TO p of Some v \<Rightarrow> v | None \<Rightarrow> 0)
      in \<lparr>player = Athlete p, number = Number p, turnovers = tov,
          to_per_36 = py_round (if 0 < minutes then tov / minutes * 36 else 0) 2,
          ast_to_ratio = py_round (case Advanced_AST_TO p of Some v \<Rightarrow> v | None \<Rightarrow> 0) 2,
          usage = py_round (case Advanced_USG p of Some v \<Rightarrow> v | None \<Rightarrow> 0) 2,
          minutes = minutes\<rparr>)"

definition has_rebounds :: "player_row \<Rightarrow> bool" where
  "has_rebounds p = (case Basic_TRB p of None \<Rightarrow> False | Some v \<Rightarrow> 0 < v)"

definition rebound_entry_of :: "player_row \<Rightarrow> rebound_entry" where
  "rebound_entry_of p =
     (let minutes = parse_minutes (Basic_MP p);
          trb = (case Basic_TRB p of Some v \<Rightarrow> v | None \<Rightarrow> 0)
      in \<lparr>player = Athlete p, number = Number p, total_reb = trb,
          orb = Basic_ORB p, drb = Basic_DRB p,
          reb_per_36 = py_round (if 0 < minutes then trb / minutes * 36 else 0) 2,
          orb_pct = py_round (case Advanced_ORB_pct p of Some v \<Rightarrow> v | None \<Rightarrow> 0) 2,
          drb_pct = py_round (case Advanced_DRB_pct p of Some v \<Rightarrow> v | None \<Rightarrow> 0) 2,
          reb_minutes = minutes\<rparr>)"

definition has_shots :: "player_row \<Rightarrow> bool" where
  "has_shots p = (case Basic_FGA p of None \<Rightarrow> False | Some v \<Rightarrow> 0 < v)"

subsection \<open>Example inputs\<close>

definition blank_team :: team_stats where
  "blank_team = \<lparr>TeamPoints = 0, FG_Attempts = 0, Offensive_Rebounds = 0, Turnovers = 0,
     FT_Att = 0, Effective_Field_Goal_pct = None, True_Shooting_pct = None, FG2_Made = 0,
     FG2_Attempts = 0, FG3_Made = 0, FG3_Attempts = 0, AST_TO_Ratio = 0, Turnover_pct = 0,
     Points_Per_Possession = 0\<rparr>"

definition blank_player :: player_row where
  "blank_player = \<lparr>Athlete = [], Number = 0, Basic_MP = None, Basic_TO = None,
     Advanced_AST_TO = None, Advanced_USG = None, Basic_TRB = None, Basic_ORB = None,
     Basic_DRB = None, Advanced_ORB_pct = None, Advanced_DRB_pct = None, Basic_FGA = None,
     Basic_FGM = None, Basic_FG_pct = Missing, Shooting_eFG_pct = Missing,
     Shooting_TS_pct = Missing\<rparr>"

definition example_team :: team_stats where
  "example_team = blank_team\<lparr>TeamPoints := 70, FG_Attempts := 60, Offensive_Rebounds := 10,
     Turnovers := 12, FT_Att := 15, Points_Per_Possession := 0.9\<rparr>"

definition example_players :: "player_row list" where
  "example_players =
     [blank_player\<lparr>Athlete := ''P1'', Number := 1, Basic_MP := Some ''24:30'', Basic_TO := Some 2\<rparr>,
      blank_player\<lparr>Athlete := ''P2'', Number := 2, Basic_MP := Some ''30:00'', Basic_TO := Some 5\<rparr>,
      blank_player\<lparr>Athlete := ''P3'', Number := 3, Basic_MP := Some ''12:00'', Basic_TO := Some 2\<rparr>,
      blank_player\<lparr>Athlete := ''P4'', Number := 4, Basic_MP := Some em_dash, Basic_TO := Some 1\<rparr>,
      blank_player\<lparr>Athlete := ''P5'', Number := 5, Basic_MP := None, Basic_TO := Some 3\<rparr>,
      blank_player\<lparr>Athlete := ''P6'', Number := 6, Basic_MP := Some ''18:00'', Basic_TO := Some 4\<rparr>,
      blank_player\<lparr>Athlete := ''P7'', Number := 7, Basic_MP := Some ''10:00'', Basic_TO := Some 0\<rparr>,
      blank_player\<lparr>Athlete := ''P8'', Number := 8, Basic_MP := Some ''5:00'', Basic_TO := None\<rparr>]"

definition example_game :: game_analyzer where
  "example_game = GameAnalyzer example_team blank_team example_players"


section \<open>Properties of the zone engine\<close>

subsection \<open>Auxiliary facts\<close>

lemma bind_result_Inr [simp]: "bind_result (Inr v) f = f v"
  by (simp add: bind_result_def)

lemma bind_result_Inl [simp]: "bind_result (Inl e) f = Inl e"
  by (simp add: bind_result_def)

lemma py_truediv_nonzero: "b \<noteq> 0 \<Longrightarrow> py_truediv a b = Inr (a / b)"
  by (simp add: py_truediv_def)

lemma assign_zone_value:
  assumes "court_width \<noteq> 0" "court_length \<noteq> 0"
  shows "assign_zone x y court_width court_length grid_rows grid_cols =
     Inr (min (py_int_of_float (max 0 (min 1 (y / court_length)) * of_int grid_rows)) (grid_rows - 1),
          min (py_int_of_float (max 0 (min 1 (x / court_width)) * of_int grid_cols)) (grid_cols - 1))"
  using assms by (simp add: assign_zone_def py_truediv_nonzero Let_def)

lemma assign_zone_zero_court:
  "court_width = 0 \<or> court_length = 0 \<Longrightarrow>
     assign_zone x y court_width court_length grid_rows grid_cols = Inl ZeroDivisionError"
  by (auto simp: assign_zone_def py_truediv_def Let_def)

lemma clamp_index_bounds:
  assumes "0 < g"
  shows "0 \<le> min (py_int_of_float (max 0 (min 1 q) * of_int g)) (g - 1)"
    and "min (py_int_of_float (max 0 (min 1 q) * of_int g)) (g - 1) \<le> g - 1"
proof -
  have "0 \<le> max 0 (min 1 q) * real_of_int g"
    using assms by simp
  then have "0 \<le> py_int_of_float (max 0 (min 1 q) * of_int g)"
    by (simp add: py_int_of_float_def)
  with assms show "0 \<le> min (py_int_of_float (max 0 (min 1 q) * of_int g)) (g - 1)"
    by simp
  show "min (py_int_of_float (max 0 (min 1 q) * of_int g)) (g - 1) \<le> g - 1"
    by simp
qed

lemma traverse_map:
  "(\<And>x. x \<in> set xs \<Longrightarrow> f x = Inr (g x)) \<Longrightarrow> traverse f xs = Inr (map g xs)"
  by (induction xs) simp_all

lemma traverse_all2:
  "(\<And>x. x \<in> set xs \<Longrightarrow> \<exists>y. f x = Inr y \<and> P x y) \<Longrightarrow>
     \<exists>ys. traverse f xs = Inr ys \<and> list_all2 P xs ys"
proof (induction xs)
  case Nil
  then show ?case by simp
next
  case (Cons x xs)
  from Cons.prems obtain y where y: "f x = Inr y" "P x y" by auto
  from Cons obtain ys where ys: "traverse f xs = Inr ys" "list_all2 P xs ys" by auto
  from y ys show ?case by simp
qed

lemma traverse_first_error: "f x = Inl e \<Longrightarrow> traverse f (x # xs) = Inl e"
  by simp

lemma round_half_even_0 [simp]: "round_half_even 0 = 0"
  by (simp add: round_half_even_def)

lemma py_round_0 [simp]: "py_round 0 n = 0"
  by (simp add: py_round_def)

lemma has_str_accessor_map:
  "has_str_accessor (map f df) = has_str_accessor df" if "\<And>s. ShotType (f s) = ShotType s"
  by (simp add: has_str_accessor_def list_ex_iff that)

lemma score_points_map:
  assumes "has_str_accessor df"
  shows "score_points (map (\<lambda>s. \<lparr>X = X s, Y = Y s, ShotType = ShotType s, Result = Result s,
                              Zone = zf s, Points = 0\<rparr>) df)
   = Inr (map (\<lambda>s. \<lparr>X = X s, Y = Y s, ShotType = ShotType s, Result = Result s, Zone = zf s,
                 Points = shot_value s\<rparr>) df)"
proof -
  let ?mk = "\<lambda>s. \<lparr>X = X s, Y = Y s, ShotType = ShotType s, Result = Result s,
                              Zone = zf s, Points = 0\<rparr>"
  have a: "has_str_accessor (map ?mk df)"
    using assms by (simp add: has_str_accessor_map)
  have b: "has_str_accessor (loc_set_Points c v (map ?mk df))" for c v
    using assms by (simp add: loc_set_Points_def has_str_accessor_map)
  show ?thesis
    by (simp add: score_points_def contains_3PT_def a b Let_def)
       (simp add: loc_set_Points_def shot_value_def is_made_def cell_contains_3PT_def)
qed

lemma score_points_no_accessor:
  "\<not> has_str_accessor df \<Longrightarrow> score_points df = Inl AttributeError"
  by (simp add: score_points_def contains_3PT_def)

lemma zone_entry_empty_table: "zone_entry [] r c = Inl ValueError"
  by (simp add: zone_entry_def select_zone_def)

lemma zone_entry_props:
  assumes "df \<noteq> []"
  shows "\<exists>z. zone_entry df r c = Inr z \<and> Row z = r \<and> Col z = c
     \<and> TotalShots z = int (length (filter (\<lambda>s. Zone s = (r, c)) df))
     \<and> MadeShots z = int (length (filter is_made (filter (\<lambda>s. Zone s = (r, c)) df)))
     \<and> MissedShots z = TotalShots z - MadeShots z
     \<and> TotalPoints z = sum_list (map Points (filter (\<lambda>s. Zone s = (r, c)) df))
     \<and> PointsPerPossession z = PointsPerShot z
     \<and> (filter (\<lambda>s. Zone s = (r, c)) df = [] \<longrightarrow>
          PointsPerShot z = 0 \<and> FieldGoalPercentage z = 0)"
  using assms
  by (cases "filter (\<lambda>s. Zone s = (r, c)) df = []")
     (simp_all add: zone_entry_def select_zone_def Let_def py_truediv_nonzero)

text \<open>
  What the function returns on a table with rows, of which at least one has a shot type,
  and a court whose dimensions are not zero.
\<close>

lemma calculate_zone_stats_rows:
  assumes "court_width \<noteq> 0" and "court_length \<noteq> 0"
    and "df \<noteq> []" and "list_ex (\<lambda>s. ShotType s \<noteq> None) df"
  shows "\<exists>rows. calculate_zone_stats df court_width court_length grid_rows grid_cols = Inr rows
    \<and> list_all2 (zone_row_of df court_width court_length grid_rows grid_cols)
         (List.product [0..grid_rows - 1] [0..grid_cols - 1]) rows"
proof -
  define zf where "zf = (\<lambda>s::shot.
     (min (py_int_of_float (max 0 (min 1 (Y s / court_length)) * of_int grid_rows)) (grid_rows - 1),
      min (py_int_of_float (max 0 (min 1 (X s / court_width)) * of_int grid_cols)) (grid_cols - 1)))"
  have az: "assign_zone (X s) (Y s) court_width court_length grid_rows grid_cols = Inr (zf s)" for s
    by (simp add: assign_zone_value [OF assms(1,2)] zf_def)
  define tbl where "tbl = map (\<lambda>s. \<lparr>X = X s, Y = Y s, ShotType = ShotType s, Result = Result s,
       Zone = zf s, Points = shot_value s\<rparr>) df"
  have ne: "tbl \<noteq> []"
    using assms(3) by (simp add: tbl_def)
  have acc: "has_str_accessor df"
    using assms(4) by (simp add: has_str_accessor_def)
  have t1: "traverse (add_zone court_width court_length grid_rows grid_cols) df
      = Inr (map (\<lambda>s. \<lparr>X = X s, Y = Y s, ShotType = ShotType s, Result = Result s,
                         Zone = zf s, Points = 0\<rparr>) df)"
    by (rule traverse_map) (simp add: add_zone_def az)
  have calc: "calculate_zone_stats df court_width court_length grid_rows grid_cols
      = traverse (\<lambda>(row_idx, col_idx). zone_entry tbl row_idx col_idx)
          (List.product [0..grid_rows - 1] [0..grid_cols - 1])"
    by (simp add: calculate_zone_stats_def t1 score_points_map [OF acc] tbl_def)
  have flt: "filter (\<lambda>s. Zone s = z) tbl
      = map (\<lambda>s. \<lparr>X = X s, Y = Y s, ShotType = ShotType s, Result = Result s,
                    Zone = zf s, Points = shot_value s\<rparr>) (filter (\<lambda>s. zf s = z) df)" for z
    by (simp add: tbl_def filter_map comp_def)
  have made: "filter is_made (filter (\<lambda>s. Zone s = z) tbl)
      = map (\<lambda>s. \<lparr>X = X s, Y = Y s, ShotType = ShotType s, Result = Result s,
                    Zone = zf s, Points = shot_value s\<rparr>) (filter is_made (filter (\<lambda>s. zf s = z) df))" for z
    by (simp add: flt filter_map comp_def is_made_def)
  have pts: "map Points (filter (\<lambda>s. Zone s = z) tbl) = map shot_value (filter (\<lambda>s. zf s = z) df)" for z
    by (simp add: flt comp_def)
  show ?thesis
    unfolding calc
  proof (rule traverse_all2)
    fix p assume "p \<in> set (List.product [0..grid_rows - 1] [0..grid_cols - 1])"
    obtain r c where p: "p = (r, c)" by (cases p)
    from zone_entry_props [OF ne, of r c] obtain z where z: "zone_entry tbl r c = Inr z"
      "Row z = r" "Col z = c"
      "TotalShots z = int (length (filter (\<lambda>s. Zone s = (r, c)) tbl))"
      "MadeShots z = int (length (filter is_made (filter (\<lambda>s. Zone s = (r, c)) tbl)))"
      "MissedShots z = TotalShots z - MadeShots z"
      "TotalPoints z = sum_list (map Points (filter (\<lambda>s. Zone s = (r, c)) tbl))"
      "PointsPerPossession z = PointsPerShot z"
      "filter (\<lambda>s. Zone s = (r, c)) tbl = [] \<longrightarrow> PointsPerShot z = 0 \<and> FieldGoalPercentage z = 0"
      by blast
    show "\<exists>y. (case p of (row_idx, col_idx) \<Rightarrow> zone_entry tbl row_idx col_idx) = Inr y \<and>
       zone_row_of df court_width court_length grid_rows grid_cols p y"
    proof -
      have a: "TotalShots z = int (length (filter (\<lambda>s. zf s = (r, c)) df))"
        using z(4) by (simp only: flt length_map)
      have b: "MadeShots z = int (length (filter is_made (filter (\<lambda>s. zf s = (r, c)) df)))"
        using z(5) by (simp only: made length_map)
      have c: "TotalPoints z = sum_list (map shot_value (filter (\<lambda>s. zf s = (r, c)) df))"
        using z(7) by (simp only: pts)
      have d: "filter (\<lambda>s. zf s = (r, c)) df = [] \<longrightarrow> PointsPerShot z = 0 \<and> FieldGoalPercentage z = 0"
        using z(9) by (simp only: flt map_is_Nil_conv)
      show ?thesis
        using z(1,2,3,6,8) a b c d by (simp add: p az zone_row_of_def)
    qed
  qed
qed

text \<open>
  When the function returns at all: either the table and the grid are both empty and so is
  the returned table, or the table has rows, one of them has a shot type, and no court
  dimension is zero.
\<close>

lemma calculate_zone_stats_Inr_cases:
  assumes "calculate_zone_stats df court_width court_length grid_rows grid_cols = Inr rows"
  shows "(df = [] \<and> rows = [] \<and> List.product [0..grid_rows - 1] [0..grid_cols - 1] = [])
       \<or> (df \<noteq> [] \<and> court_width \<noteq> 0 \<and> court_length \<noteq> 0
            \<and> list_ex (\<lambda>s. ShotType s \<noteq> None) df)"
proof (cases df)
  case Nil
  have sp: "score_points [] = Inr []"
    by (simp add: score_points_def contains_3PT_def has_str_accessor_def loc_set_Points_def)
  show ?thesis
  proof (cases "List.product [0..grid_rows - 1] [0..grid_cols - 1]")
    case Nil': Nil
    with assms Nil sp show ?thesis
      by (simp add: calculate_zone_stats_def)
  next
    case (Cons p ps)
    obtain r c where p: "p = (r, c)" by (cases p)
    from assms Nil sp Cons p show ?thesis
      by (simp add: calculate_zone_stats_def zone_entry_empty_table)
  qed
next
  case (Cons s ss)
  have court: "court_width \<noteq> 0 \<and> court_length \<noteq> 0"
  proof (rule ccontr)
    assume "\<not> (court_width \<noteq> 0 \<and> court_length \<noteq> 0)"
    then have "add_zone court_width court_length grid_rows grid_cols s = Inl ZeroDivisionError"
      by (simp add: add_zone_def assign_zone_zero_court)
    with assms Cons show False
      by (simp add: calculate_zone_stats_def)
  qed
  have "list_ex (\<lambda>s. ShotType s \<noteq> None) df"
  proof (rule ccontr)
    assume n: "\<not> list_ex (\<lambda>s. ShotType s \<noteq> None) df"
    define zf where "zf = (\<lambda>s::shot.
       (min (py_int_of_float (max 0 (min 1 (Y s / court_length)) * of_int grid_rows)) (grid_rows - 1),
        min (py_int_of_float (max 0 (min 1 (X s / court_width)) * of_int grid_cols)) (grid_cols - 1)))"
    have t1: "traverse (add_zone court_width court_length grid_rows grid_cols) df
        = Inr (map (\<lambda>s. \<lparr>X = X s, Y = Y s, ShotType = ShotType s, Result = Result s,
                           Zone = zf s, Points = 0\<rparr>) df)"
      using court by (intro traverse_map) (simp add: add_zone_def assign_zone_value zf_def)
    have "has_str_accessor (map (\<lambda>s. \<lparr>X = X s, Y = Y s, ShotType = ShotType s,
                       Result = Result s, Zone = zf s, Points = 0\<rparr>) df) = has_str_accessor df"
      by (rule has_str_accessor_map) simp
    moreover have "\<not> has_str_accessor df"
      using n Cons by (simp add: has_str_accessor_def)
    ultimately have "\<not> has_str_accessor (map (\<lambda>s. \<lparr>X = X s, Y = Y s, ShotType = ShotType s,
                       Result = Result s, Zone = zf s, Points = 0\<rparr>) df)"
      by simp
    then have "calculate_zone_stats df court_width court_length grid_rows grid_cols = Inl AttributeError"
      by (simp add: calculate_zone_stats_def t1 score_points_no_accessor)
    with assms show False by simp
  qed
  with court Cons show ?thesis by simp
qed

lemma calculate_zone_stats_Inr_rows:
  assumes "calculate_zone_stats df court_width court_length grid_rows grid_cols = Inr rows"
  shows "list_all2 (zone_row_of df court_width court_length grid_rows grid_cols)
           (List.product [0..grid_rows - 1] [0..grid_cols - 1]) rows"
proof -
  from calculate_zone_stats_Inr_cases [OF assms] show ?thesis
  proof
    assume "df = [] \<and> rows = [] \<and> List.product [0..grid_rows - 1] [0..grid_cols - 1] = []"
    then show ?thesis by simp
  next
    assume h: "df \<noteq> [] \<and> court_width \<noteq> 0 \<and> court_length \<noteq> 0
            \<and> list_ex (\<lambda>s. ShotType s \<noteq> None) df"
    with calculate_zone_stats_rows [of court_width court_length df grid_rows grid_cols] assms
    show ?thesis by auto
  qed
qed

lemma list_all2_map_key:
  "list_all2 (\<lambda>x y. g y = x \<and> Q x y) xs ys \<Longrightarrow> map g ys = xs"
  by (induction xs ys rule: list_all2_induct) simp_all

lemma list_all2_rhs_member:
  assumes "list_all2 P xs ys" and "y \<in> set ys"
  shows "\<exists>x\<in>set xs. P x y"
  using assms by (induction xs ys rule: list_all2_induct) auto

lemma map_sum_id_Inr: "map_sum id f x = Inr y \<Longrightarrow> \<exists>r. x = Inr r \<and> f r = y"
  by (cases x) simp_all

lemma length_grid:
  assumes "0 \<le> grid_rows" and "0 \<le> grid_cols"
  shows "length (List.product [0..grid_rows - 1] [0..grid_cols - 1]) = nat (grid_rows * grid_cols)"
  using assms by (simp add: nat_mult_distrib)


subsection \<open>Zone assignment\<close>

text \<open>
  Claim C3. Zone assignment is total: for positive court and grid dimensions, every pair of
  real coordinates, inside the court or not, is mapped to a pair \<open>(row, col)\<close> with
  \<open>0 \<le> row \<le> grid_rows - 1\<close> and \<open>0 \<le> col \<le> grid_cols - 1\<close>; no error is raised.
\<close>

theorem assign_zone_total:
  assumes "0 < court_width" and "0 < court_length" and "0 < grid_rows" and "0 < grid_cols"
  shows "\<exists>row col. assign_zone x y court_width court_length grid_rows grid_cols = Inr (row, col)
           \<and> 0 \<le> row \<and> row \<le> grid_rows - 1 \<and> 0 \<le> col \<and> col \<le> grid_cols - 1"
proof -
  from assms have nz: "court_width \<noteq> 0" "court_length \<noteq> 0" by simp_all
  show ?thesis
    unfolding assign_zone_value [OF nz]
    using clamp_index_bounds [OF assms(3)] clamp_index_bounds [OF assms(4)]
    by blast
qed

text \<open>The out-of-bounds coordinates \<open>x = -10\<close> and \<open>y = 200\<close> on the default court.\<close>

theorem assign_zone_total_witness:
  "(0::real) < 94 \<and> (0::real) < 50 \<and> (0::int) < 5 \<and>
   (\<exists>row col. assign_zone (-10) 200 94 50 5 5 = Inr (row, col)
      \<and> 0 \<le> row \<and> row \<le> 5 - 1 \<and> 0 \<le> col \<and> col \<le> 5 - 1)"
  using assign_zone_total [of 94 50 5 5 "-10" 200] by simp

lemma assign_zone_examples:
  "assign_zone (-10) 200 94 50 5 5 = Inr (4, 0)"
  "assign_zone 200 (-3) 94 50 5 5 = Inr (0, 4)"
  "assign_zone 47 25 94 50 5 5 = Inr (2, 2)"
  "assign_zone 94 50 94 50 5 5 = Inr (4, 4)"
  by (simp_all add: assign_zone_def py_truediv_def py_int_of_float_def Let_def)

subsection \<open>Zone aggregation\<close>

text \<open>
  On every table with rows of which at least one has a shot type, with court dimensions that
  are not zero and grid dimensions that are not negative, the function returns exactly
  \<open>grid_rows * grid_cols\<close> rows, one for each zone \<open>(row, col)\<close> of the grid in row-major
  order, and a zone to which no shot of the table is assigned reports 0 in each of its
  fields.
\<close>

lemma dense_grid_on_accepted_table:
  assumes "court_width \<noteq> 0" and "court_length \<noteq> 0"
    and "0 \<le> grid_rows" and "0 \<le> grid_cols"
    and "df \<noteq> []" and "list_ex (\<lambda>s. ShotType s \<noteq> None) df"
  shows "\<exists>rows. calculate_zone_stats df court_width court_length grid_rows grid_cols = Inr rows
    \<and> length rows = nat (grid_rows * grid_cols)
    \<and> map (\<lambda>z. (Row z, Col z)) rows = List.product [0..grid_rows - 1] [0..grid_cols - 1]
    \<and> (\<forall>z\<in>set rows.
          (\<forall>s\<in>set df. assign_zone (X s) (Y s) court_width court_length grid_rows grid_cols
                          \<noteq> Inr (Row z, Col z)) \<longrightarrow>
          TotalShots z = 0 \<and> MadeShots z = 0 \<and> MissedShots z = 0 \<and> TotalPoints z = 0 \<and>
          PointsPerShot z = 0 \<and> PointsPerPossession z = 0 \<and> FieldGoalPercentage z = 0)"
proof -
  from calculate_zone_stats_rows [OF assms(1,2,5,6), of grid_rows grid_cols]
  obtain rows where rows:
    "calculate_zone_stats df court_width court_length grid_rows grid_cols = Inr rows"
    and all2: "list_all2 (zone_row_of df court_width court_length grid_rows grid_cols)
       (List.product [0..grid_rows - 1] [0..grid_cols - 1]) rows"
    by blast
  have len: "length rows = nat (grid_rows * grid_cols)"
    using list_all2_lengthD [OF all2] length_grid [OF assms(3,4)] by simp
  have "list_all2 (\<lambda>p z. (Row z, Col z) = p \<and> True) (List.product [0..grid_rows - 1] [0..grid_cols - 1]) rows"
    by (rule list_all2_mono [OF all2]) (simp add: zone_row_of_def Let_def)
  then have keys: "map (\<lambda>z. (Row z, Col z)) rows = List.product [0..grid_rows - 1] [0..grid_cols - 1]"
    by (rule list_all2_map_key)
  have zero: "TotalShots z = 0 \<and> MadeShots z = 0 \<and> MissedShots z = 0 \<and> TotalPoints z = 0 \<and>
          PointsPerShot z = 0 \<and> PointsPerPossession z = 0 \<and> FieldGoalPercentage z = 0"
    if z: "z \<in> set rows"
      and none: "\<forall>s\<in>set df. assign_zone (X s) (Y s) court_width court_length grid_rows grid_cols
                          \<noteq> Inr (Row z, Col z)" for z
  proof -
    from list_all2_rhs_member [OF all2 z] obtain p where
      p: "zone_row_of df court_width court_length grid_rows grid_cols p z"
      by auto
    then have pz: "p = (Row z, Col z)"
      by (simp add: zone_row_of_def Let_def)
    from none have e: "filter (\<lambda>s. assign_zone (X s) (Y s) court_width court_length grid_rows grid_cols = Inr (Row z, Col z)) df = []"
      by (simp add: filter_empty_conv)
    from p show ?thesis
      unfolding zone_row_of_def pz e Let_def by simp
  qed
  from rows len keys zero show ?thesis by blast
qed

text \<open>
  Claim C4. The claim asks for \<open>grid_rows * grid_cols\<close> rows of zeros on the table without
  rows. There the function raises: the column \<open>Zone\<close> of such a table cannot be compared
  with a zone, and the first pass of the loop over the default grid ends in
  \<^verbatim>\<open>ValueError\<close>.
\<close>

theorem zone_stats_empty_table_raises:
  "calculate_zone_stats [] 94 50 5 5 = Inl ValueError"
  by code_simp

text \<open>
  Whenever the function returns, the total points of a zone are the sum, over the shots of
  the table assigned to that zone, of 3 for a shot whose result is \<open>Made\<close> and whose shot
  type contains \<open>3PT\<close>, 2 for a shot whose result is \<open>Made\<close> and whose shot type does
  not contain \<open>3PT\<close> or is missing, and 0 for a shot with any other result.
\<close>

lemma zone_total_points_when_returned:
  assumes "calculate_zone_stats df court_width court_length grid_rows grid_cols = Inr rows"
  shows "\<forall>z\<in>set rows. TotalPoints z =
          (\<Sum>s\<leftarrow>filter (\<lambda>s. assign_zone (X s) (Y s) court_width court_length grid_rows grid_cols
                                 = Inr (Row z, Col z)) df.
             if Result s = Some ''Made''
             then if (case ShotType s of None \<Rightarrow> False | Some t \<Rightarrow> str_contains ''3PT'' t)
                  then 3 else 2
             else 0)"
proof
  fix z assume z: "z \<in> set rows"
  have sv: "shot_value = (\<lambda>s. if Result s = Some ''Made''
             then if (case ShotType s of None \<Rightarrow> False | Some t \<Rightarrow> str_contains ''3PT'' t)
                  then 3 else 2
             else 0)"
    by (rule ext) (simp add: shot_value_def is_made_def cell_contains_3PT_def)
  from list_all2_rhs_member [OF calculate_zone_stats_Inr_rows [OF assms] z] obtain p where
    p: "zone_row_of df court_width court_length grid_rows grid_cols p z"
    by auto
  then have pz: "p = (Row z, Col z)"
    by (simp add: zone_row_of_def Let_def)
  from p show "TotalPoints z =
          (\<Sum>s\<leftarrow>filter (\<lambda>s. assign_zone (X s) (Y s) court_width court_length grid_rows grid_cols
                                 = Inr (Row z, Col z)) df.
             if Result s = Some ''Made''
             then if (case ShotType s of None \<Rightarrow> False | Some t \<Rightarrow> str_contains ''3PT'' t)
                  then 3 else 2
             else 0)"
    unfolding zone_row_of_def pz Let_def sv by simp
qed

text \<open>With positive grid dimensions every shot of the table is in a zone of the returned table.\<close>

lemma every_shot_in_a_returned_zone:
  assumes "calculate_zone_stats df court_width court_length grid_rows grid_cols = Inr rows"
    and "0 < grid_rows" and "0 < grid_cols"
  shows "\<forall>s\<in>set df. \<exists>z\<in>set rows.
           assign_zone (X s) (Y s) court_width court_length grid_rows grid_cols = Inr (Row z, Col z)"
proof
  fix s assume s: "s \<in> set df"
  then have "df \<noteq> []" by auto
  with calculate_zone_stats_Inr_cases [OF assms(1)]
  have court: "court_width \<noteq> 0" "court_length \<noteq> 0" by auto
  have "list_all2 (\<lambda>p z. (Row z, Col z) = p \<and> True)
          (List.product [0..grid_rows - 1] [0..grid_cols - 1]) rows"
    by (rule list_all2_mono [OF calculate_zone_stats_Inr_rows [OF assms(1)]])
       (simp add: zone_row_of_def Let_def)
  then have keys: "map (\<lambda>z. (Row z, Col z)) rows = List.product [0..grid_rows - 1] [0..grid_cols - 1]"
    by (rule list_all2_map_key)
  let ?r = "min (py_int_of_float (max 0 (min 1 (Y s / court_length)) * of_int grid_rows)) (grid_rows - 1)"
  let ?c = "min (py_int_of_float (max 0 (min 1 (X s / court_width)) * of_int grid_cols)) (grid_cols - 1)"
  have az: "assign_zone (X s) (Y s) court_width court_length grid_rows grid_cols = Inr (?r, ?c)"
    by (rule assign_zone_value [OF court])
  have "(?r, ?c) \<in> set (List.product [0..grid_rows - 1] [0..grid_cols - 1])"
    using clamp_index_bounds [OF assms(2)] clamp_index_bounds [OF assms(3)] by simp
  then have "(?r, ?c) \<in> (\<lambda>z. (Row z, Col z)) ` set rows"
    unfolding keys [symmetric] by simp
  then show "\<exists>z\<in>set rows.
           assign_zone (X s) (Y s) court_width court_length grid_rows grid_cols = Inr (Row z, Col z)"
    unfolding az by auto
qed

text \<open>
  A table that mixes the three cases and a missing shot type: the zone of its four shots has
  \<open>3 + 2 + 2 + 0\<close> points.
\<close>

lemma zone_total_points_example:
  "map_sum id (map TotalPoints) (calculate_zone_stats
        [\<lparr>X = 10, Y = 10, ShotType = Some ''3PT Jump Shot'', Result = Some ''Made''\<rparr>,
         \<lparr>X = 20, Y = 5, ShotType = Some ''Layup'', Result = Some ''Made''\<rparr>,
         \<lparr>X = 30, Y = 12, ShotType = None, Result = Some ''Made''\<rparr>,
         \<lparr>X = 40, Y = 20, ShotType = Some ''3PT'', Result = Some ''Missed''\<rparr>] 94 50 2 2)
     = Inr [7, 0, 0, 0]"
  by code_simp

text \<open>
  Claim C5. The claim gives 2 points to a made shot whose shot type is missing. On a table
  in which no shot has a shot type the function raises instead: the column \<open>ShotType\<close> is
  then not a column of strings, and the first use of \<^verbatim>\<open>.str.contains\<close> ends in
  \<^verbatim>\<open>AttributeError\<close>.
\<close>

theorem missing_shot_types_raise:
  "calculate_zone_stats [\<lparr>X = 10, Y = 10, ShotType = None, Result = Some ''Made''\<rparr>] 94 50 5 5
     = Inl AttributeError"
  by code_simp

text \<open>
  Claim C8. In every row of a table that the function returns, the points per possession
  equal the points per shot, whatever the shot table and the grid.
\<close>

theorem zone_ppp_equals_pps:
  assumes "calculate_zone_stats df court_width court_length grid_rows grid_cols = Inr rows"
  shows "\<forall>z\<in>set rows. PointsPerPossession z = PointsPerShot z"
proof
  fix z assume "z \<in> set rows"
  from list_all2_rhs_member [OF calculate_zone_stats_Inr_rows [OF assms] this]
  show "PointsPerPossession z = PointsPerShot z"
    by (auto simp: zone_row_of_def Let_def)
qed

theorem zone_ppp_equals_pps_witness:
  "\<exists>rows. calculate_zone_stats
        [\<lparr>X = 10, Y = 10, ShotType = Some ''3PT Jump Shot'', Result = Some ''Made''\<rparr>,
         \<lparr>X = 80, Y = 40, ShotType = Some ''Layup'', Result = Some ''Missed''\<rparr>] 94 50 5 5 = Inr rows
      \<and> (\<forall>z\<in>set rows. PointsPerPossession z = PointsPerShot z)
      \<and> map PointsPerShot rows
          = [0, 0, 0, 0, 0, 3, 0, 0, 0, 0, 0, 0, 0, 0, 0, 0, 0, 0, 0, 0, 0, 0, 0, 0, 0]"
proof -
  have e: "map_sum id (map PointsPerShot) (calculate_zone_stats
        [\<lparr>X = 10, Y = 10, ShotType = Some ''3PT Jump Shot'', Result = Some ''Made''\<rparr>,
         \<lparr>X = 80, Y = 40, ShotType = Some ''Layup'', Result = Some ''Missed''\<rparr>] 94 50 5 5)
      = Inr [0, 0, 0, 0, 0, 3, 0, 0, 0, 0, 0, 0, 0, 0, 0, 0, 0, 0, 0, 0, 0, 0, 0, 0, 0]"
    by code_simp
  from map_sum_id_Inr [OF e] obtain rows where
    rows: "calculate_zone_stats
        [\<lparr>X = 10, Y = 10, ShotType = Some ''3PT Jump Shot'', Result = Some ''Made''\<rparr>,
         \<lparr>X = 80, Y = 40, ShotType = Some ''Layup'', Result = Some ''Missed''\<rparr>] 94 50 5 5 = Inr rows"
    and v: "map PointsPerShot rows
      = [0, 0, 0, 0, 0, 3, 0, 0, 0, 0, 0, 0, 0, 0, 0, 0, 0, 0, 0, 0, 0, 0, 0, 0, 0]"
    by (elim exE conjE)
  note t = zone_ppp_equals_pps [OF rows]
  show ?thesis
    by (rule exI [of _ rows]) (intro conjI rows t v)
qed


section \<open>Properties of the game analyzer\<close>

subsection \<open>Auxiliary facts\<close>

lemma guarded_div:
  "(if 0 < d then py_truediv n d else Inr 0) = Inr (if 0 < d then n / d else 0)"
  by (simp add: py_truediv_def)

lemma guarded_div_scaled:
  "(if 0 < d then bind_result (py_truediv n d) (\<lambda>q. Inr (q * k)) else Inr 0)
     = Inr (if 0 < d then n / d * k else 0)"
  by (simp add: py_truediv_def)

lemma turnover_rows_eq:
  "turnover_rows p = Inr (if has_turnovers p then [turnover_entry_of p] else [])"
  by (cases "Basic_TO p")
     (simp_all add: turnover_rows_def has_turnovers_def turnover_entry_of_def Let_def
        guarded_div_scaled)

lemma rebound_rows_eq:
  "rebound_rows p = Inr (if has_rebounds p then [rebound_entry_of p] else [])"
  by (cases "Basic_TRB p")
     (simp_all add: rebound_rows_def has_rebounds_def rebound_entry_of_def Let_def
        guarded_div_scaled)

lemma concat_map_singleton_if:
  "concat (map (\<lambda>x. if P x then [f x] else []) xs) = map f (filter P xs)"
  by (induction xs) simp_all

lemma player_turnovers_eq:
  "player_turnovers self =
     Inr (sort_reverse turnovers (map turnover_entry_of (filter has_turnovers (our_players self))))"
proof -
  have "traverse turnover_rows (our_players self)
      = Inr (map (\<lambda>p. if has_turnovers p then [turnover_entry_of p] else []) (our_players self))"
    by (rule traverse_map) (rule turnover_rows_eq)
  then show ?thesis
    by (simp add: player_turnovers_def concat_map_singleton_if)
qed

lemma player_rebounds_eq:
  "player_rebounds self =
     Inr (sort_reverse total_reb (map rebound_entry_of (filter has_rebounds (our_players self))))"
proof -
  have "traverse rebound_rows (our_players self)
      = Inr (map (\<lambda>p. if has_rebounds p then [rebound_entry_of p] else []) (our_players self))"
    by (rule traverse_map) (rule rebound_rows_eq)
  then show ?thesis
    by (simp add: player_rebounds_def concat_map_singleton_if)
qed

lemma analyze_turnovers_fields:
  "\<exists>r. analyze_turnovers self = Inr r
     \<and> our_to_rate r = py_round (if 0 < our_possessions self
          then Turnovers (our_team_stats self) / our_possessions self * 100 else 0) 2
     \<and> opp_to_rate r = py_round (if 0 < opponent_possessions self
          then Turnovers (opponent_stats self) / opponent_possessions self * 100 else 0) 2
     \<and> potential_points_lost r =
          py_round (Turnovers (our_team_stats self) * Points_Per_Possession (our_team_stats self)) 2
     \<and> top_turnover_players r =
          take 5 (sort_reverse turnovers (map turnover_entry_of (filter has_turnovers (our_players self))))"
  by (simp add: analyze_turnovers_def Let_def guarded_div_scaled player_turnovers_eq)

lemma calculate_efficiency_metrics_ppp:
  "\<exists>m. calculate_efficiency_metrics self = Inr m
     \<and> ppp (our_team m) = py_round (if 0 < our_possessions self
          then TeamPoints (our_team_stats self) / our_possessions self else 0) 3
     \<and> ppp (opponent m) = py_round (if 0 < opponent_possessions self
          then TeamPoints (opponent_stats self) / opponent_possessions self else 0) 3"
  by (simp add: calculate_efficiency_metrics_def Let_def guarded_div guarded_div_scaled)

lemma analyze_rebounding_eq:
  "analyze_rebounding self = Inr \<lparr>top_rebounders =
      take 5 (sort_reverse total_reb (map rebound_entry_of (filter has_rebounds (our_players self))))\<rparr>"
  by (simp add: analyze_rebounding_def player_rebounds_eq)

lemma shot_rows_length: "length (shot_rows py_float p) = (if has_shots p then 1 else 0)"
  by (cases "Basic_FGA p") (simp_all add: shot_rows_def has_shots_def Let_def)

lemma length_concat_shot_rows:
  "length (concat (map (shot_rows py_float) ps)) = length (filter has_shots ps)"
  by (induction ps) (simp_all add: shot_rows_length)

lemma mset_sort_reverse: "mset (sort_reverse k xs) = mset xs"
  by (simp add: sort_reverse_def)

lemma length_sort_reverse: "length (sort_reverse k xs) = length xs"
  by (simp add: sort_reverse_def)

lemma set_sort_reverse: "set (sort_reverse k xs) = set xs"
  by (simp add: sort_reverse_def)

lemma sorted_sort_reverse: "sorted_wrt (\<lambda>a b. k b \<le> k a) (sort_reverse k xs)"
proof -
  have "sorted (map (\<lambda>x. - k x) (sort_key (\<lambda>x. - k x) xs))"
    by (rule sorted_sort_key)
  then show ?thesis
    by (simp add: sort_reverse_def sorted_map)
qed

lemma sort_reverse_stable:
  "filter (\<lambda>x. k x = v) (sort_reverse k xs) = filter (\<lambda>x. k x = v) xs"
proof -
  have "filter (\<lambda>x. - k x = - v) (sort_key (\<lambda>x. - k x) xs) = filter (\<lambda>x. - k x = - v) xs"
    by (rule sort_key_stable)
  then show ?thesis
    by (simp add: sort_reverse_def)
qed

lemma split_on_append:
  "sep \<notin> set a \<Longrightarrow> split_on sep (a @ sep # b) = a # split_on sep b"
  by (induction a) auto

lemma split_on_no_sep: "sep \<notin> set s \<Longrightarrow> split_on sep s = [s]"
  by (induction s) auto

lemma is_digit_not_special:
  assumes "is_digit c"
  shows "c \<noteq> CHR '':''" and "c \<noteq> CHR ''-''" and "c \<noteq> CHR ''+''" and "c \<noteq> CHR ''_''"
    and "\<not> is_space c"
  using assms by (auto simp: is_digit_def is_space_def)

lemma parse_digits_all_digits:
  "\<forall>c\<in>set ds. is_digit c \<Longrightarrow>
     parse_digits acc ds = Some (foldl (\<lambda>a c. 10 * a + digit_val c) acc ds)"
  by (induction ds arbitrary: acc) simp_all

lemma strip_no_outer_space:
  assumes "s \<noteq> []" and "\<not> is_space (hd s)" and "\<not> is_space (last s)"
  shows "strip s = s"
proof -
  from assms(1,2) have a: "dropWhile is_space s = s"
    by (cases s) simp_all
  from assms(1,3) have "dropWhile is_space (rev s) = rev s"
    by (cases "rev s") (simp_all add: hd_rev [symmetric])
  with a show ?thesis
    by (simp add: strip_def)
qed

lemma py_int_digits:
  assumes "ds \<noteq> []" and "\<forall>c\<in>set ds. is_digit c"
  shows "py_int ds = Some (int (decimal_value ds))"
proof -
  from assms have hd: "is_digit (hd ds)" and lst: "is_digit (last ds)"
    by simp_all
  have st: "strip ds = ds"
    using assms(1) hd lst by (intro strip_no_outer_space) (simp_all add: is_digit_not_special)
  from assms(1) obtain c cs where ds: "ds = c # cs"
    by (cases ds) auto
  with hd have c: "is_digit c" by simp
  have "parse_unsigned ds = Some (decimal_value ds)"
    using c assms(2) by (simp add: parse_unsigned_def ds decimal_value_def parse_digits_all_digits)
  then show ?thesis
    using c st by (simp add: py_int_def ds is_digit_not_special)
qed

lemma parse_minutes_digits:
  assumes "ms \<noteq> []" and "\<forall>c\<in>set ms. is_digit c" and "ss \<noteq> []" and "\<forall>c\<in>set ss. is_digit c"
  shows "parse_minutes (Some (ms @ '':'' @ ss))
           = real (decimal_value ms) + real (decimal_value ss) / 60"
proof -
  have nm: "CHR '':'' \<notin> set ms" and ns: "CHR '':'' \<notin> set ss"
    using assms(2,4) is_digit_not_special(1) by blast+
  have sp: "split_on CHR '':'' (ms @ CHR '':'' # ss) = [ms, ss]"
    using nm ns by (simp add: split_on_append split_on_no_sep)
  from assms(1) obtain c cs where ms: "ms = c # cs"
    by (cases ms) auto
  with assms(2) have "is_digit c" by simp
  then have "c \<noteq> char_of (226 :: nat)"
    by (auto simp: is_digit_def)
  then have ne: "ms @ '':'' @ ss \<noteq> em_dash"
    by (simp add: ms em_dash_def)
  show ?thesis
    using ne by (simp add: parse_minutes_def sp py_int_digits assms Let_def)
qed

lemma parse_minutes_unparseable:
  assumes "length (split_on CHR '':'' s) \<noteq> 2
           \<or> py_int (split_on CHR '':'' s ! 0) = None
           \<or> py_int (split_on CHR '':'' s ! 1) = None"
  shows "parse_minutes (Some s) = 0"
  using assms by (auto simp: parse_minutes_def Let_def split: option.splits)

lemma turnover_entry_of_zero_minutes:
  "minutes (turnover_entry_of p) = parse_minutes (Basic_MP p)"
  "parse_minutes (Basic_MP p) = 0 \<Longrightarrow> to_per_36 (turnover_entry_of p) = 0"
  by (simp_all add: turnover_entry_of_def Let_def)

lemma rebound_entry_of_zero_minutes:
  "reb_minutes (rebound_entry_of p) = parse_minutes (Basic_MP p)"
  "parse_minutes (Basic_MP p) = 0 \<Longrightarrow> reb_per_36 (rebound_entry_of p) = 0"
  by (simp_all add: rebound_entry_of_def Let_def)

subsection \<open>Possessions\<close>

text \<open>
  Claim C1. For every team-totals record the estimated possession count is
  \<open>FGA - ORB + TO + 0.44 * FTA\<close>: this is what \<open>calculate_possessions\<close> returns and what
  the constructor stores for both teams. A team with FGA = 60, ORB = 10, TO = 12 and
  FTA = 15 has 68.6 possessions.
\<close>

theorem possessions_formula:
  "calculate_possessions t = FG_Attempts t - Offensive_Rebounds t + Turnovers t + 0.44 * FT_Att t
   \<and> our_possessions (GameAnalyzer our opp players)
       = FG_Attempts our - Offensive_Rebounds our + Turnovers our + 0.44 * FT_Att our
   \<and> opponent_possessions (GameAnalyzer our opp players)
       = FG_Attempts opp - Offensive_Rebounds opp + Turnovers opp + 0.44 * FT_Att opp
   \<and> calculate_possessions
        (t\<lparr>FG_Attempts := 60, Offensive_Rebounds := 10, Turnovers := 12, FT_Att := 15\<rparr>) = 68.6"
  by (simp add: calculate_possessions_def GameAnalyzer_def Let_def)

text \<open>
  Claim C2. For a team whose estimated possession count is zero or negative, the points per
  possession reported by \<open>calculate_efficiency_metrics\<close> and the turnover rate reported
  by \<open>analyze_turnovers\<close> are 0; both functions return a result, no division raises.
\<close>

theorem zero_possessions_metrics:
  "\<exists>m r. calculate_efficiency_metrics self = Inr m \<and> analyze_turnovers self = Inr r
     \<and> (our_possessions self \<le> 0 \<longrightarrow> ppp (our_team m) = 0 \<and> our_to_rate r = 0)
     \<and> (opponent_possessions self \<le> 0 \<longrightarrow> ppp (opponent m) = 0 \<and> opp_to_rate r = 0)"
proof -
  from calculate_efficiency_metrics_ppp [of self] obtain m where
    m: "calculate_efficiency_metrics self = Inr m"
       "ppp (our_team m) = py_round (if 0 < our_possessions self
          then TeamPoints (our_team_stats self) / our_possessions self else 0) 3"
       "ppp (opponent m) = py_round (if 0 < opponent_possessions self
          then TeamPoints (opponent_stats self) / opponent_possessions self else 0) 3"
    by blast
  from analyze_turnovers_fields [of self] obtain r where
    r: "analyze_turnovers self = Inr r"
       "our_to_rate r = py_round (if 0 < our_possessions self
          then Turnovers (our_team_stats self) / our_possessions self * 100 else 0) 2"
       "opp_to_rate r = py_round (if 0 < opponent_possessions self
          then Turnovers (opponent_stats self) / opponent_possessions self * 100 else 0) 2"
    by blast
  have "our_possessions self \<le> 0 \<longrightarrow> ppp (our_team m) = 0 \<and> our_to_rate r = 0"
    using m(2) r(2) by simp
  moreover have "opponent_possessions self \<le> 0 \<longrightarrow> ppp (opponent m) = 0 \<and> opp_to_rate r = 0"
    using m(3) r(3) by simp
  ultimately show ?thesis
    using m(1) r(1) by blast
qed

theorem zero_possessions_metrics_witness:
  "our_possessions (GameAnalyzer (blank_team\<lparr>TeamPoints := 10, Offensive_Rebounds := 3, Turnovers := 3\<rparr>) blank_team []) \<le> 0
   \<and> opponent_possessions (GameAnalyzer (blank_team\<lparr>TeamPoints := 10, Offensive_Rebounds := 3, Turnovers := 3\<rparr>) blank_team []) \<le> 0
   \<and> (\<exists>m r. calculate_efficiency_metrics (GameAnalyzer (blank_team\<lparr>TeamPoints := 10, Offensive_Rebounds := 3, Turnovers := 3\<rparr>) blank_team []) = Inr m
        \<and> analyze_turnovers (GameAnalyzer (blank_team\<lparr>TeamPoints := 10, Offensive_Rebounds := 3, Turnovers := 3\<rparr>) blank_team []) = Inr r
        \<and> ppp (our_team m) = 0 \<and> our_to_rate r = 0 \<and> ppp (opponent m) = 0 \<and> opp_to_rate r = 0)"
proof -
  let ?g = "GameAnalyzer (blank_team\<lparr>TeamPoints := 10, Offensive_Rebounds := 3, Turnovers := 3\<rparr>) blank_team []"
  have h: "our_possessions ?g \<le> 0" "opponent_possessions ?g \<le> 0"
    by (simp_all add: GameAnalyzer_def calculate_possessions_def blank_team_def)
  from zero_possessions_metrics [of ?g] h show ?thesis
    by blast
qed

subsection \<open>Minutes\<close>

text \<open>
  Claim C6. A clock string \<open>MM:SS\<close> whose two parts are non-empty strings of decimal
  digits parses to \<open>MM + SS / 60\<close> minutes, \<open>24:30\<close> to 24.5; a missing value and the
  sentinel parse to 0, as does every string that does not split at the colons into exactly
  two parts or has a part that \<open>int\<close> rejects; and for a player whose parsed minutes are 0
  the rates per 36 minutes of the turnover and the rebound entries are 0, in the loops and
  in the returned rankings, and nothing raises.
\<close>

theorem minutes_normalization:
  "(ms \<noteq> [] \<and> (\<forall>c\<in>set ms. is_digit c) \<and> ss \<noteq> [] \<and> (\<forall>c\<in>set ss. is_digit c) \<longrightarrow>
      parse_minutes (Some (ms @ '':'' @ ss))
        = real (decimal_value ms) + real (decimal_value ss) / 60)
   \<and> parse_minutes (Some ''24:30'') = 24.5
   \<and> parse_minutes None = 0
   \<and> parse_minutes (Some em_dash) = 0
   \<and> (length (split_on CHR '':'' s) \<noteq> 2
        \<or> py_int (split_on CHR '':'' s ! 0) = None
        \<or> py_int (split_on CHR '':'' s ! 1) = None \<longrightarrow> parse_minutes (Some s) = 0)
   \<and> (parse_minutes (Basic_MP p) = 0 \<longrightarrow>
        (\<exists>es. turnover_rows p = Inr es \<and> (\<forall>e\<in>set es. to_per_36 e = 0))
        \<and> (\<exists>es. rebound_rows p = Inr es \<and> (\<forall>e\<in>set es. reb_per_36 e = 0)))
   \<and> (\<exists>rt rr. analyze_turnovers self = Inr rt \<and> analyze_rebounding self = Inr rr
        \<and> (\<forall>e\<in>set (top_turnover_players rt). minutes e = 0 \<longrightarrow> to_per_36 e = 0)
        \<and> (\<forall>e\<in>set (top_rebounders rr). reb_minutes e = 0 \<longrightarrow> reb_per_36 e = 0))"
proof -
  have a: "ms \<noteq> [] \<and> (\<forall>c\<in>set ms. is_digit c) \<and> ss \<noteq> [] \<and> (\<forall>c\<in>set ss. is_digit c) \<longrightarrow>
      parse_minutes (Some (ms @ '':'' @ ss))
        = real (decimal_value ms) + real (decimal_value ss) / 60"
    using parse_minutes_digits by blast
  have b: "parse_minutes (Some ''24:30'') = 24.5"
    using parse_minutes_digits [of "''24''" "''30''"]
    by (simp add: is_digit_def decimal_value_def digit_val_def)
  have c: "parse_minutes None = 0" "parse_minutes (Some em_dash) = 0"
    by (simp_all add: parse_minutes_def)
  have d: "length (split_on CHR '':'' s) \<noteq> 2
        \<or> py_int (split_on CHR '':'' s ! 0) = None
        \<or> py_int (split_on CHR '':'' s ! 1) = None \<longrightarrow> parse_minutes (Some s) = 0"
    using parse_minutes_unparseable by blast
  have e: "parse_minutes (Basic_MP p) = 0 \<longrightarrow>
        (\<exists>es. turnover_rows p = Inr es \<and> (\<forall>e\<in>set es. to_per_36 e = 0))
        \<and> (\<exists>es. rebound_rows p = Inr es \<and> (\<forall>e\<in>set es. reb_per_36 e = 0))"
    by (simp add: turnover_rows_eq rebound_rows_eq turnover_entry_of_zero_minutes
        rebound_entry_of_zero_minutes)
  from analyze_turnovers_fields [of self] obtain rt where
    rt: "analyze_turnovers self = Inr rt"
        "top_turnover_players rt = take 5 (sort_reverse turnovers
           (map turnover_entry_of (filter has_turnovers (our_players self))))"
    by blast
  have f1: "to_per_36 e = 0" if "e \<in> set (top_turnover_players rt)" "minutes e = 0" for e
  proof -
    from that(1) have "e \<in> set (sort_reverse turnovers
           (map turnover_entry_of (filter has_turnovers (our_players self))))"
      unfolding rt(2) by (rule in_set_takeD)
    then obtain q where "e = turnover_entry_of q"
      by (auto simp: set_sort_reverse)
    with that(2) show ?thesis
      by (simp add: turnover_entry_of_zero_minutes)
  qed
  let ?rr = "\<lparr>top_rebounders = take 5 (sort_reverse total_reb
      (map rebound_entry_of (filter has_rebounds (our_players self))))\<rparr>"
  have f2: "reb_per_36 e = 0" if "e \<in> set (top_rebounders ?rr)" "reb_minutes e = 0" for e
  proof -
    from that(1) have "e \<in> set (sort_reverse total_reb
      (map rebound_entry_of (filter has_rebounds (our_players self))))"
      by (auto dest: in_set_takeD)
    then obtain q where "e = rebound_entry_of q"
      by (auto simp: set_sort_reverse)
    with that(2) show ?thesis
      by (simp add: rebound_entry_of_zero_minutes)
  qed
  have f: "\<exists>rt rr. analyze_turnovers self = Inr rt \<and> analyze_rebounding self = Inr rr
        \<and> (\<forall>e\<in>set (top_turnover_players rt). minutes e = 0 \<longrightarrow> to_per_36 e = 0)
        \<and> (\<forall>e\<in>set (top_rebounders rr). reb_minutes e = 0 \<longrightarrow> reb_per_36 e = 0)"
    using rt(1) analyze_rebounding_eq [of self] f1 f2 by blast
  from a b c d e f show ?thesis by blast
qed

text \<open>
  The witness: the string \<open>24:30\<close>, the unparseable strings \<open>1:2:3\<close> and \<open>12:xx\<close>,
  and the fifth example player, whose minutes are missing; then the example game, whose
  third-ranked player has 0 minutes and a rate of 0.
\<close>

theorem minutes_normalization_witness:
  "parse_minutes (Some (''24'' @ '':'' @ ''30''))
      = real (decimal_value ''24'') + real (decimal_value ''30'') / 60
   \<and> real (decimal_value ''24'') + real (decimal_value ''30'') / 60 = 24.5
   \<and> length (split_on CHR '':'' ''1:2:3'') \<noteq> 2 \<and> parse_minutes (Some ''1:2:3'') = 0
   \<and> py_int (split_on CHR '':'' ''12:xx'' ! 1) = None \<and> parse_minutes (Some ''12:xx'') = 0
   \<and> parse_minutes (Basic_MP (example_players ! 4)) = 0
   \<and> (\<exists>es. turnover_rows (example_players ! 4) = Inr es
          \<and> (\<forall>e\<in>set es. to_per_36 e = 0))
   \<and> map_sum id (map to_per_36) (turnover_rows (example_players ! 4)) = Inr [0]
   \<and> map_sum id (\<lambda>r. map (\<lambda>e. (minutes e, to_per_36 e)) (top_turnover_players r))
        (analyze_turnovers example_game)
       = Inr [(30, 6), (18, 8), (0, 0), (24.5, 2.94), (12, 6)]"
proof -
  have d: "''24'' \<noteq> [] \<and> (\<forall>c\<in>set ''24''. is_digit c) \<and> ''30'' \<noteq> [] \<and> (\<forall>c\<in>set ''30''. is_digit c)"
    by (simp add: is_digit_def)
  have v: "real (decimal_value ''24'') + real (decimal_value ''30'') / 60 = 24.5"
    by (simp add: decimal_value_def digit_val_def)
  have u1: "length (split_on CHR '':'' ''1:2:3'') \<noteq> 2"
    by code_simp
  have u2: "py_int (split_on CHR '':'' ''12:xx'' ! 1) = None"
    by code_simp
  have m: "parse_minutes (Basic_MP (example_players ! 4)) = 0"
    by code_simp
  have t0: "map_sum id (map to_per_36) (turnover_rows (example_players ! 4)) = Inr [0]"
    by code_simp
  have g: "map_sum id (\<lambda>r. map (\<lambda>e. (minutes e, to_per_36 e)) (top_turnover_players r))
        (analyze_turnovers example_game)
       = Inr [(30, 6), (18, 8), (0, 0), (24.5, 2.94), (12, 6)]"
    by code_simp
  note n = minutes_normalization [of "''24''" "''30''" "''1:2:3''" "example_players ! 4" example_game]
  note n' = minutes_normalization [of "''24''" "''30''" "''12:xx''" "example_players ! 4" example_game]
  from n d have n1: "parse_minutes (Some (''24'' @ '':'' @ ''30''))
      = real (decimal_value ''24'') + real (decimal_value ''30'') / 60"
    by blast
  from n u1 have n2: "parse_minutes (Some ''1:2:3'') = 0"
    by blast
  from n' u2 have n3: "parse_minutes (Some ''12:xx'') = 0"
    by blast
  from n m have n4: "\<exists>es. turnover_rows (example_players ! 4) = Inr es
          \<and> (\<forall>e\<in>set es. to_per_36 e = 0)"
    by blast
  from n1 v u1 n2 u2 n3 m n4 t0 g show ?thesis
    by blast
qed

subsection \<open>Rankings\<close>

text \<open>
  Claim C7, amended. The list \<^verbatim>\<open>player_turnovers\<close> that \<open>analyze_turnovers\<close> builds
  and sorts holds exactly the entries of the players whose turnover count is present and
  strictly positive, in descending order of turnover count, entries of equal count in their
  input order; the returned \<^verbatim>\<open>top_turnover_players\<close> is the first five entries of
  that list.
\<close>

theorem ranked_turnover_list:
  "\<exists>ranked r. player_turnovers self = Inr ranked \<and> analyze_turnovers self = Inr r
     \<and> mset ranked = mset (map turnover_entry_of (filter has_turnovers (our_players self)))
     \<and> sorted_wrt (\<lambda>a b. turnovers b \<le> turnovers a) ranked
     \<and> (\<forall>v. filter (\<lambda>e. turnovers e = v) ranked
            = filter (\<lambda>e. turnovers e = v)
                (map turnover_entry_of (filter has_turnovers (our_players self))))
     \<and> top_turnover_players r = take 5 ranked"
proof -
  let ?es = "map turnover_entry_of (filter has_turnovers (our_players self))"
  from analyze_turnovers_fields [of self] obtain r where
    r: "analyze_turnovers self = Inr r"
       "top_turnover_players r = take 5 (sort_reverse turnovers ?es)"
    by blast
  have "mset (sort_reverse turnovers ?es) = mset ?es"
    by (rule mset_sort_reverse)
  moreover have "sorted_wrt (\<lambda>a b. turnovers b \<le> turnovers a) (sort_reverse turnovers ?es)"
    by (rule sorted_sort_reverse)
  moreover have "\<forall>v. filter (\<lambda>e. turnovers e = v) (sort_reverse turnovers ?es)
            = filter (\<lambda>e. turnovers e = v) ?es"
    by (simp add: sort_reverse_stable)
  ultimately show ?thesis
    using r player_turnovers_eq [of self] by blast
qed

text \<open>
  The returned ranking does not hold every player with a positive turnover count: of the six
  such players of the example game, \<open>P4\<close> with one turnover is not in it.
\<close>

theorem ranked_turnover_list_counterexample:
  "map_sum id (\<lambda>r. map player (top_turnover_players r)) (analyze_turnovers example_game)
     = Inr [''P2'', ''P6'', ''P5'', ''P1'', ''P3'']
   \<and> map (\<lambda>p. (Athlete p, Basic_TO p)) (our_players example_game) =
       [(''P1'', Some 2), (''P2'', Some 5), (''P3'', Some 2), (''P4'', Some 1),
        (''P5'', Some 3), (''P6'', Some 4), (''P7'', Some 0), (''P8'', None)]"
  by code_simp

text \<open>
  Claim C9, amended. \<open>analyze_turnovers\<close> reports as potential points lost the turnover
  count of the team multiplied by the value of its \<^verbatim>\<open>Points Per Possession\<close> column,
  rounded to two decimals; the column is read as supplied and is not recomputed from the
  points and the estimated possessions.
\<close>

theorem potential_points_lost_value:
  "\<exists>r. analyze_turnovers self = Inr r
     \<and> potential_points_lost r =
          py_round (Turnovers (our_team_stats self)
                    * Points_Per_Possession (our_team_stats self)) 2"
  using analyze_turnovers_fields [of self] by blast

text \<open>
  In the example game the column holds 0.9 while the team scored 70 points on 68.6 estimated
  possessions: the report is \<open>12 * 0.9 = 10.8\<close>, and \<open>12 * (70 / 68.6)\<close> is
  \<open>600 / 49\<close>, which rounds to 12.24.
\<close>

theorem potential_points_lost_counterexample:
  "map_sum id potential_points_lost (analyze_turnovers example_game) = Inr 10.8
   \<and> Turnovers (our_team_stats example_game)
       * (TeamPoints (our_team_stats example_game) / our_possessions example_game) = 600 / 49
   \<and> py_round (600 / 49) 2 = 12.24"
  by code_simp

text \<open>
  Claim C10. Each of the three returned player rankings, \<^verbatim>\<open>top_turnover_players\<close>,
  \<^verbatim>\<open>top_rebounders\<close> and \<^verbatim>\<open>top_shooters\<close>, is the first five entries of the
  sorted list of qualifying players, so it has five entries when five or more players
  qualify, and never more than five.
\<close>

theorem rankings_at_most_five:
  "\<exists>rt rr ranked_to ranked_reb.
      analyze_turnovers self = Inr rt \<and> player_turnovers self = Inr ranked_to
    \<and> top_turnover_players rt = take 5 ranked_to
    \<and> length (top_turnover_players rt) = min 5 (length (filter has_turnovers (our_players self)))
    \<and> length (top_turnover_players rt) \<le> 5
    \<and> analyze_rebounding self = Inr rr \<and> player_rebounds self = Inr ranked_reb
    \<and> top_rebounders rr = take 5 ranked_reb
    \<and> length (top_rebounders rr) = min 5 (length (filter has_rebounds (our_players self)))
    \<and> length (top_rebounders rr) \<le> 5
    \<and> top_shooters (optimize_shot_selection py_float self) = take 5 (player_shots py_float self)
    \<and> length (top_shooters (optimize_shot_selection py_float self))
         = min 5 (length (filter has_shots (our_players self)))
    \<and> length (top_shooters (optimize_shot_selection py_float self)) \<le> 5"
proof -
  from analyze_turnovers_fields [of self] obtain rt where
    rt: "analyze_turnovers self = Inr rt"
        "top_turnover_players rt = take 5 (sort_reverse turnovers
           (map turnover_entry_of (filter has_turnovers (our_players self))))"
    by blast
  have sh: "top_shooters (optimize_shot_selection py_float self) = take 5 (player_shots py_float self)"
    by (simp add: optimize_shot_selection_def)
  have shl: "length (player_shots py_float self) = length (filter has_shots (our_players self))"
    by (simp add: player_shots_def length_sort_reverse length_concat_shot_rows)
  show ?thesis
    using rt player_turnovers_eq [of self] player_rebounds_eq [of self]
      analyze_rebounding_eq [of self] sh shl
    by (simp add: length_sort_reverse min.commute)
qed

end
